theory Spec2Isabelle
  imports Main "HOL-Library.Word"
begin

section \<open>Incident reports: data model\<close>

text \<open>
  The program is one Python module, \<^verbatim>\<open>main.py\<close>: four HTTP handlers over one
  table of incident reports, and a helper that decodes an embedded media payload into a
  file. The handlers are embedded as functions on an explicit world (the table, the
  upload area, the number of identifiers drawn so far); every \<^verbatim>\<open>raise\<close> is a value.
\<close>

type_synonym byte = "8 word"

record date =
  year :: nat
  month :: nat
  day :: nat

text \<open>
  The values a JSON object can hold once parsed by Python. \<open>'f\<close> is Python's
  \<^verbatim>\<open>float\<close>, left abstract.
\<close>

datatype 'f pyval =
    PNone
  | PBool bool
  | PInt int
  | PFloat 'f
  | PStr string
  | PList "'f pyval list"
  | PDict "(string \<times> 'f pyval) list"

text \<open>A parsed JSON object: its keys with their values, each key once.\<close>

type_synonym 'f pydict = "(string \<times> 'f pyval) list"

datatype py_exception =
    UnpackValueError
  | IndexError
  | BinasciiError
  | ArchivoValueError py_exception
  | IntegrityError string
  | FloatValueError string
  | ResponseValidationError string
  | OverflowError

datatype detail = Text string | StrOf py_exception

datatype http_exception = HTTPException nat detail

text \<open>
  What the module takes from Python's library and from its run: the functions of the
  standard library it calls, the value \<^verbatim>\<open>date.today()\<close> had when the module was
  imported, and the strings \<^verbatim>\<open>str(uuid4())\<close> returns, in the order of the calls.
\<close>

record 'f pylib =
  str_other :: "'f pyval \<Rightarrow> string"
  float_nonzero :: "'f \<Rightarrow> bool"
  py_float :: "string \<Rightarrow> 'f option"
  guess_extension :: "string \<Rightarrow> string option"
  b64decode :: "string \<Rightarrow> byte list option"
  strftime_Ymd :: "date \<Rightarrow> string"
  today_at_import :: date
  uuid4_str :: "nat \<Rightarrow> string"

text \<open>The table \<^verbatim>\<open>incidencias\<close>: a column with \<^verbatim>\<open>nullable=False\<close> (or the primary
  key) has its plain type, a nullable column is an option.\<close>

record Incidencia =
  id_incidencia :: string
  id_usuario_emisor :: string
  id_catalogo :: string
  subcategoria :: string
  asunto :: string
  descripcion :: string
  imagen :: "string option"
  video :: "string option"
  audio :: "string option"
  fecha_emision :: date
  ubicacion_lat :: "string option"
  ubicacion_lng :: "string option"
  status :: "string option"

record 'f IncidenciaCreate =
  c_id_usuario_emisor :: string
  c_id_catalogo :: string
  c_subcategoria :: string
  c_asunto :: string
  c_descripcion :: string
  c_fecha_emision :: "date option"
  c_imagen :: "string option"
  c_video :: "string option"
  c_audio :: "string option"
  c_ubicacion :: "'f pydict option"

record 'f IncidenciaResponse =
  r_id_incidencia :: string
  r_id_usuario_emisor :: string
  r_id_catalogo :: string
  r_subcategoria :: string
  r_asunto :: string
  r_descripcion :: string
  r_imagen :: "string option"
  r_video :: "string option"
  r_audio :: "string option"
  r_fecha_emision :: string
  r_ubicacion :: "'f pydict option"
  r_status :: string

text \<open>
  The world a request runs in: the rows of the table in storage order, the files and
  directories of the upload area, how many identifiers \<^verbatim>\<open>uuid4\<close> has handed out, and
  the calendar date of the moment (which no handler reads).
\<close>

record world =
  rows :: "Incidencia list"
  files :: "string \<rightharpoonup> byte list"
  dirs :: "string set"
  uuid_calls :: nat
  today :: date

section \<open>Python's strings, truth values and paths\<close>

text \<open>\<^verbatim>\<open>s.split(c)\<close> for a one-character separator: every occurrence cuts.\<close>

fun str_split :: "char \<Rightarrow> string \<Rightarrow> string list" where
  "str_split c [] = [[]]"
| "str_split c (x # xs) =
     (if x = c then [] # str_split c xs
      else (case str_split c xs of
              [] \<Rightarrow> [[x]]
            | w # ws \<Rightarrow> (x # w) # ws))"

text \<open>\<^verbatim>\<open>s.split(c, 1)\<close>: only the first occurrence cuts.\<close>

definition str_split_max1 :: "char \<Rightarrow> string \<Rightarrow> string list" where
  "str_split_max1 c s =
     (if c \<in> set s
      then [takeWhile (\<lambda>x. x \<noteq> c) s, tl (dropWhile (\<lambda>x. x \<noteq> c) s)]
      else [s])"

text \<open>\<^verbatim>\<open>str(n)\<close> for an integer: decimal digits, a minus sign when negative.\<close>

fun str_nat :: "nat \<Rightarrow> string" where
  "str_nat n =
     (if n < 10 then [''0123456789'' ! n]
      else str_nat (n div 10) @ [''0123456789'' ! (n mod 10)])"

declare str_nat.simps [simp del]

definition str_int :: "int \<Rightarrow> string" where
  "str_int i = (if i < 0 then CHR ''-'' # str_nat (nat (- i)) else str_nat (nat i))"

text \<open>Truth value of a Python object, as \<^verbatim>\<open>if x\<close> takes it.\<close>

fun truthy :: "'f pylib \<Rightarrow> 'f pyval \<Rightarrow> bool" where
  "truthy L PNone = False"
| "truthy L (PBool b) = b"
| "truthy L (PInt i) = (i \<noteq> 0)"
| "truthy L (PFloat x) = float_nonzero L x"
| "truthy L (PStr s) = (s \<noteq> [])"
| "truthy L (PList xs) = (xs \<noteq> [])"
| "truthy L (PDict kvs) = (kvs \<noteq> [])"

text \<open>\<^verbatim>\<open>str(x)\<close>; the renderings of floats and containers are the library's.\<close>

fun py_str :: "'f pylib \<Rightarrow> 'f pyval \<Rightarrow> string" where
  "py_str L PNone = ''None''"
| "py_str L (PBool b) = (if b then ''True'' else ''False'')"
| "py_str L (PInt i) = str_int i"
| "py_str L (PStr s) = s"
| "py_str L v = str_other L v"

text \<open>\<^verbatim>\<open>d.get(k)\<close>: \<^verbatim>\<open>None\<close> when the key is missing.\<close>

definition dict_get :: "'f pydict \<Rightarrow> string \<Rightarrow> 'f pyval" where
  "dict_get d k = (case map_of d k of None \<Rightarrow> PNone | Some v \<Rightarrow> v)"

text \<open>\<^verbatim>\<open>os.path.join(a, b)\<close> and \<^verbatim>\<open>os.path.basename(p)\<close> on a POSIX system.\<close>

definition os_path_join :: "string \<Rightarrow> string \<Rightarrow> string" where
  "os_path_join a b =
     (if b \<noteq> [] \<and> hd b = CHR ''/'' then b
      else if a = [] \<or> last a = CHR ''/'' then a @ b
      else a @ ''/'' @ b)"

definition os_path_basename :: "string \<Rightarrow> string" where
  "os_path_basename p = rev (takeWhile (\<lambda>x. x \<noteq> CHR ''/'') (rev p))"

definition UPLOAD_DIR :: string where
  "UPLOAD_DIR = ''./uploads''"

section \<open>The media decoder\<close>

text \<open>\<^verbatim>\<open>guess_extension(mime_type) or ".bin"\<close>\<close>

definition extension_of :: "'f pylib \<Rightarrow> string \<Rightarrow> string" where
  "extension_of L mime_type =
     (case guess_extension L mime_type of
        None \<Rightarrow> ''.bin''
      | Some e \<Rightarrow> if e = [] then ''.bin'' else e)"

text \<open>
  \<^verbatim>\<open>save_base64_file(base64_data, upload_dir)\<close>. Every exception of the body is caught
  and raised again as a \<^verbatim>\<open>ValueError\<close> that carries its text. The operations on the
  file system are taken to succeed.
\<close>

definition save_base64_file ::
  "'f pylib \<Rightarrow> string \<Rightarrow> string \<Rightarrow> world \<Rightarrow> (py_exception + string) \<times> world" where
  "save_base64_file L base64_data upload_dir w =
     (case str_split_max1 CHR '','' base64_data of
        [header, data] \<Rightarrow>
          (case str_split CHR '':'' header of
             _ # h1 # _ \<Rightarrow>
               (case str_split CHR '';'' h1 of
                  mime_type # _ \<Rightarrow>
                    (let extension = extension_of L mime_type in
                     case b64decode L data of
                       None \<Rightarrow> (Inl (ArchivoValueError BinasciiError), w)
                     | Some file_data \<Rightarrow>
                         (let file_name = uuid4_str L (uuid_calls w) @ extension;
                              file_path = os_path_join upload_dir file_name
                          in (Inr file_path,
                              w\<lparr>uuid_calls := Suc (uuid_calls w),
                                dirs := insert upload_dir (dirs w),
                                files := (files w)(file_path \<mapsto> file_data)\<rparr>)))
                | [] \<Rightarrow> (Inl (ArchivoValueError IndexError), w))
           | _ \<Rightarrow> (Inl (ArchivoValueError IndexError), w))
      | _ \<Rightarrow> (Inl (ArchivoValueError UnpackValueError), w))"

section \<open>The handlers\<close>

text \<open>
  The class \<^verbatim>\<open>IncidenciaCreate\<close> gives \<^verbatim>\<open>fecha_emision\<close> the default
  \<^verbatim>\<open>date.today()\<close>, an expression Python evaluates once, when the class body runs.
  A request body can leave the field out, send \<^verbatim>\<open>null\<close>, or send a date.
\<close>

datatype 'a json_field = Omitted | Null | Given 'a

definition fecha_emision_field :: "'f pylib \<Rightarrow> date json_field \<Rightarrow> date option" where
  "fecha_emision_field L f =
     (case f of Omitted \<Rightarrow> Some (today_at_import L) | Null \<Rightarrow> None | Given d \<Rightarrow> Some d)"

definition IncidenciaCreate_of ::
  "'f pylib \<Rightarrow> string \<Rightarrow> string \<Rightarrow> string \<Rightarrow> string \<Rightarrow> string \<Rightarrow> date json_field \<Rightarrow>
   string option \<Rightarrow> string option \<Rightarrow> string option \<Rightarrow> 'f pydict option \<Rightarrow> 'f IncidenciaCreate" where
  "IncidenciaCreate_of L usuario catalogo sub asu des fecha img vid aud ubi =
     \<lparr>c_id_usuario_emisor = usuario, c_id_catalogo = catalogo, c_subcategoria = sub,
      c_asunto = asu, c_descripcion = des, c_fecha_emision = fecha_emision_field L fecha,
      c_imagen = img, c_video = vid, c_audio = aud, c_ubicacion = ubi\<rparr>"

text \<open>\<^verbatim>\<open>incidencia.ubicacion.get(k) if incidencia.ubicacion else None\<close>\<close>

definition ubicacion_get :: "'f pydict option \<Rightarrow> string \<Rightarrow> 'f pyval" where
  "ubicacion_get u k =
     (case u of None \<Rightarrow> PNone | Some d \<Rightarrow> if d = [] then PNone else dict_get d k)"

text \<open>\<^verbatim>\<open>str(v) if v else None\<close>\<close>

definition str_if_truthy :: "'f pylib \<Rightarrow> 'f pyval \<Rightarrow> string option" where
  "str_if_truthy L v = (if truthy L v then Some (py_str L v) else None)"

text \<open>
  One media field of the draft: \<^verbatim>\<open>if incidencia.imagen: nueva_incidencia.imagen =
  save_base64_file(incidencia.imagen, os.path.join(UPLOAD_DIR, "images"))\<close>.
\<close>

definition save_media ::
  "'f pylib \<Rightarrow> string option \<Rightarrow> string \<Rightarrow> world \<Rightarrow> (py_exception + string option) \<times> world" where
  "save_media L field sub w =
     (case field of
        None \<Rightarrow> (Inr None, w)
      | Some s \<Rightarrow>
          if s = [] then (Inr None, w)
          else (case save_base64_file L s (os_path_join UPLOAD_DIR sub) w of
                  (Inl e, w') \<Rightarrow> (Inl e, w')
                | (Inr p, w') \<Rightarrow> (Inr (Some p), w')))"

text \<open>
  \<^verbatim>\<open>db.add(nueva_incidencia); db.commit()\<close>: the row gets its identifier and its status
  from the column defaults, and the table refuses a null date and a repeated key.
\<close>

definition db_add_commit ::
  "'f pylib \<Rightarrow> 'f IncidenciaCreate \<Rightarrow> string option \<Rightarrow> string option \<Rightarrow>
   string option \<Rightarrow> string option \<Rightarrow> string option \<Rightarrow> world \<Rightarrow> (py_exception + string) \<times> world" where
  "db_add_commit L inc lat lng img vid aud w =
     (let new_id = uuid4_str L (uuid_calls w);
          w1 = w\<lparr>uuid_calls := Suc (uuid_calls w)\<rparr>
      in case c_fecha_emision inc of
           None \<Rightarrow>
             (Inl (IntegrityError ''NOT NULL constraint failed: incidencias.fecha_emision''), w1)
         | Some d \<Rightarrow>
             if new_id \<in> id_incidencia ` set (rows w)
             then (Inl (IntegrityError ''UNIQUE constraint failed: incidencias.id_incidencia''), w1)
             else (Inr new_id,
                   w1\<lparr>rows := rows w @
                      [\<lparr>id_incidencia = new_id,
                        id_usuario_emisor = c_id_usuario_emisor inc,
                        id_catalogo = c_id_catalogo inc,
                        subcategoria = c_subcategoria inc,
                        asunto = c_asunto inc,
                        descripcion = c_descripcion inc,
                        imagen = img, video = vid, audio = aud,
                        fecha_emision = d,
                        ubicacion_lat = lat, ubicacion_lng = lng,
                        status = Some ''pending''\<rparr>]\<rparr>))"

text \<open>\<^verbatim>\<open>except Exception as e: db.rollback(); raise HTTPException(status_code=400, detail=str(e))\<close>\<close>

definition bad_request :: "py_exception \<Rightarrow> http_exception" where
  "bad_request e = HTTPException 400 (StrOf e)"

definition create_incidencia ::
  "'f pylib \<Rightarrow> 'f IncidenciaCreate \<Rightarrow> world \<Rightarrow> (http_exception + string \<times> string) \<times> world" where
  "create_incidencia L inc w =
     (let lat = str_if_truthy L (ubicacion_get (c_ubicacion inc) ''lat'');
          lng = str_if_truthy L (ubicacion_get (c_ubicacion inc) ''lng'')
      in case save_media L (c_imagen inc) ''images'' w of
           (Inl e, w1) \<Rightarrow> (Inl (bad_request e), w1)
         | (Inr img, w1) \<Rightarrow>
        (case save_media L (c_video inc) ''videos'' w1 of
           (Inl e, w2) \<Rightarrow> (Inl (bad_request e), w2)
         | (Inr vid, w2) \<Rightarrow>
        (case save_media L (c_audio inc) ''audios'' w2 of
           (Inl e, w3) \<Rightarrow> (Inl (bad_request e), w3)
         | (Inr aud, w3) \<Rightarrow>
        (case db_add_commit L inc lat lng img vid aud w3 of
           (Inl e, w4) \<Rightarrow> (Inl (bad_request e), w4)
         | (Inr new_id, w4) \<Rightarrow>
             (Inr (''Incidencia creada correctamente'', new_id), w4)))))"

text \<open>The view of one row, as the list comprehension of \<^verbatim>\<open>list_incidencias\<close> builds it.\<close>

definition media_url :: "string \<Rightarrow> string option \<Rightarrow> string option" where
  "media_url base_url ref =
     (case ref of
        None \<Rightarrow> None
      | Some p \<Rightarrow> if p = [] then None else Some (base_url @ ''uploads/'' @ os_path_basename p))"

text \<open>
  \<^verbatim>\<open>{"lat": float(inc.ubicacion_lat), "lng": float(inc.ubicacion_lng)} if
  inc.ubicacion_lat and inc.ubicacion_lng else None\<close>; \<^verbatim>\<open>float\<close> raises on a text that
  is not a number.
\<close>

definition ubicacion_view ::
  "'f pylib \<Rightarrow> string option \<Rightarrow> string option \<Rightarrow> py_exception + 'f pydict option" where
  "ubicacion_view L lat lng =
     (case (lat, lng) of
        (Some a, Some b) \<Rightarrow>
          if a \<noteq> [] \<and> b \<noteq> []
          then (case py_float L a of
                  None \<Rightarrow> Inl (FloatValueError a)
                | Some x \<Rightarrow>
                    (case py_float L b of
                       None \<Rightarrow> Inl (FloatValueError b)
                     | Some y \<Rightarrow> Inr (Some [(''lat'', PFloat x), (''lng'', PFloat y)])))
          else Inr None
      | _ \<Rightarrow> Inr None)"

definition to_response ::
  "'f pylib \<Rightarrow> string \<Rightarrow> Incidencia \<Rightarrow> py_exception + 'f IncidenciaResponse" where
  "to_response L base_url inc =
     (case ubicacion_view L (ubicacion_lat inc) (ubicacion_lng inc) of
        Inl e \<Rightarrow> Inl e
      | Inr ubi \<Rightarrow>
          (case status inc of
             None \<Rightarrow> Inl (ResponseValidationError ''status'')
           | Some st \<Rightarrow>
               Inr \<lparr>r_id_incidencia = id_incidencia inc,
                    r_id_usuario_emisor = id_usuario_emisor inc,
                    r_id_catalogo = id_catalogo inc,
                    r_subcategoria = subcategoria inc,
                    r_asunto = asunto inc,
                    r_descripcion = descripcion inc,
                    r_imagen = media_url base_url (imagen inc),
                    r_video = media_url base_url (video inc),
                    r_audio = media_url base_url (audio inc),
                    r_fecha_emision = strftime_Ymd L (fecha_emision inc),
                    r_ubicacion = ubi,
                    r_status = st\<rparr>))"

fun responses ::
  "'f pylib \<Rightarrow> string \<Rightarrow> Incidencia list \<Rightarrow> py_exception + 'f IncidenciaResponse list" where
  "responses L base_url [] = Inr []"
| "responses L base_url (inc # incs) =
     (case to_response L base_url inc of
        Inl e \<Rightarrow> Inl e
      | Inr v \<Rightarrow>
          (case responses L base_url incs of
             Inl e \<Rightarrow> Inl e
           | Inr vs \<Rightarrow> Inr (v # vs)))"

text \<open>An integer SQLite can take as a parameter: a signed 64-bit one.\<close>

definition sqlite_int :: "int \<Rightarrow> bool" where
  "sqlite_int n = (- (2 ^ 63) \<le> n \<and> n < 2 ^ 63)"

text \<open>
  The query of the second definition of \<^verbatim>\<open>list_incidencias\<close>, the one the module's
  name is bound to: \<^verbatim>\<open>if id_usuario: query = query.filter(Incidencia.id_usuario_emisor
  == id_usuario)\<close>, then \<^verbatim>\<open>query.all()\<close>. The parameter is an integer and the column
  is text; the table compares the column with the integer's decimal text. Binding an
  integer SQLite cannot take raises \<^verbatim>\<open>OverflowError\<close>.
\<close>

definition query_incidencias ::
  "int option \<Rightarrow> Incidencia list \<Rightarrow> py_exception + Incidencia list" where
  "query_incidencias id_usuario rs =
     (case id_usuario of
        None \<Rightarrow> Inr rs
      | Some n \<Rightarrow>
          if n \<noteq> 0
          then (if sqlite_int n
                then Inr (filter (\<lambda>r. id_usuario_emisor r = str_int n) rs)
                else Inl OverflowError)
          else Inr rs)"

definition list_incidencias ::
  "'f pylib \<Rightarrow> string \<Rightarrow> int option \<Rightarrow> world \<Rightarrow> py_exception + 'f IncidenciaResponse list" where
  "list_incidencias L base_url id_usuario w =
     (case query_incidencias id_usuario (rows w) of
        Inl e \<Rightarrow> Inl e
      | Inr incidencias \<Rightarrow> responses L base_url incidencias)"

text \<open>The first definition of \<^verbatim>\<open>list_incidencias\<close>, which takes no filter.\<close>

definition list_incidencias_all ::
  "'f pylib \<Rightarrow> string \<Rightarrow> world \<Rightarrow> py_exception + 'f IncidenciaResponse list" where
  "list_incidencias_all L base_url w = responses L base_url (rows w)"

text \<open>
  \<^verbatim>\<open>update_incidencia_status\<close>: the first row with the identifier, if any, gets the new
  status.
\<close>

fun set_status_first :: "string \<Rightarrow> string \<Rightarrow> Incidencia list \<Rightarrow> Incidencia list" where
  "set_status_first i st [] = []"
| "set_status_first i st (r # rs) =
     (if id_incidencia r = i then r\<lparr>status := Some st\<rparr> # rs
      else r # set_status_first i st rs)"

definition not_found :: http_exception where
  "not_found = HTTPException 404 (Text ''Incidencia no encontrada'')"

definition update_incidencia_status ::
  "string \<Rightarrow> string \<Rightarrow> world \<Rightarrow> (http_exception + string) \<times> world" where
  "update_incidencia_status i st w =
     (case find (\<lambda>r. id_incidencia r = i) (rows w) of
        None \<Rightarrow> (Inl not_found, w)
      | Some _ \<Rightarrow>
          (Inr (''Estado de incidencia cambiado a '' @ st),
           w\<lparr>rows := set_status_first i st (rows w)\<rparr>))"

fun delete_first :: "string \<Rightarrow> Incidencia list \<Rightarrow> Incidencia list" where
  "delete_first i [] = []"
| "delete_first i (r # rs) =
     (if id_incidencia r = i then rs else r # delete_first i rs)"

definition delete_incidencia :: "string \<Rightarrow> world \<Rightarrow> (http_exception + string) \<times> world" where
  "delete_incidencia i w =
     (case find (\<lambda>r. id_incidencia r = i) (rows w) of
        None \<Rightarrow> (Inl not_found, w)
      | Some _ \<Rightarrow>
          (Inr ''Incidencia eliminada correctamente'',
           w\<lparr>rows := delete_first i (rows w)\<rparr>))"

section \<open>Properties the specification names\<close>

text \<open>
  The payloads \<^verbatim>\<open>save_base64_file\<close> raises on, read off its body: the unpacking of
  \<^verbatim>\<open>split(",", 1)\<close> needs a comma, the index \<^verbatim>\<open>[1]\<close> into \<^verbatim>\<open>header.split(":")\<close> needs a
  colon in the header, and \<^verbatim>\<open>b64decode\<close> must take the body.
\<close>

definition decoder_raises :: "'f pylib \<Rightarrow> string \<Rightarrow> bool" where
  "decoder_raises L s =
     (CHR '','' \<notin> set s \<or>
      CHR '':'' \<notin> set (takeWhile (\<lambda>x. x \<noteq> CHR '','') s) \<or>
      b64decode L (tl (dropWhile (\<lambda>x. x \<noteq> CHR '','') s)) = None)"

text \<open>
  The header of the shape the specification gives a payload,
  \<^verbatim>\<open>data:<mime-type>;base64\<close>: it begins with \<^verbatim>\<open>data:\<close> and ends with \<^verbatim>\<open>;base64\<close>.
\<close>

definition data_uri_header :: "string \<Rightarrow> bool" where
  "data_uri_header h = (take 5 h = ''data:'' \<and> drop (length h - 7) h = '';base64'')"

text \<open>The characters of base64 text.\<close>

definition base64_alphabet :: string where
  "base64_alphabet = ''ABCDEFGHIJKLMNOPQRSTUVWXYZabcdefghijklmnopqrstuvwxyz0123456789+/=''"


text \<open>The invariant of the data model: no row's status is the empty string.\<close>

definition status_nonempty :: "world \<Rightarrow> bool" where
  "status_nonempty w = (\<forall>r\<in>set (rows w). status r \<noteq> Some [])"

text \<open>The pair invariant of the data model: latitude and longitude are both null or both
  not null.\<close>

definition location_pair_ok :: "Incidencia \<Rightarrow> bool" where
  "location_pair_ok r = ((ubicacion_lat r = None) = (ubicacion_lng r = None))"

text \<open>Truth value of an optional text, as \<^verbatim>\<open>if s\<close> takes it.\<close>

definition str_present :: "string option \<Rightarrow> bool" where
  "str_present s = (case s of None \<Rightarrow> False | Some x \<Rightarrow> x \<noteq> [])"

section \<open>Concrete data for the runs below\<close>

text \<open>
  A library instance for concrete runs. It answers as Python does on the arguments the
  runs below use: \<^verbatim>\<open>float("19.4")\<close>, \<^verbatim>\<open>float("-99.1")\<close>, \<^verbatim>\<open>float("abc")\<close> (which
  raises), \<^verbatim>\<open>guess_extension("image/png")\<close>, \<^verbatim>\<open>guess_extension("application/x-nope")\<close>
  (which is \<^verbatim>\<open>None\<close>, as for every type but \<^verbatim>\<open>image/png\<close> here), \<^verbatim>\<open>b64decode("aGk=")\<close>
  (the bytes of \<^verbatim>\<open>hi\<close>), \<^verbatim>\<open>b64decode("!!!")\<close> (no bytes: it skips the characters that
  are not base64), \<^verbatim>\<open>b64decode("no")\<close> (which raises, for its padding),
  \<^verbatim>\<open>str(19.4)\<close>, \<^verbatim>\<open>str(-99.1)\<close>, and \<^verbatim>\<open>strftime('%Y-%m-%d')\<close> on dates of four-digit
  years. A float is written as a mantissa and a number of decimal places. The module was
  imported on 2024-05-01, and the first identifier \<^verbatim>\<open>uuid4\<close> hands out is
  \<^verbatim>\<open>3f2b8c1e-5d47-4a69-9b0c-7e1d2f3a4b5c\<close>.
\<close>

definition lib_ex :: "(int \<times> nat) pylib" where
  "lib_ex =
     \<lparr>str_other = (\<lambda>v. if v = PFloat (194, 1) then ''19.4''
                        else if v = PFloat (- 991, 1) then ''-99.1'' else ''[]''),
      float_nonzero = (\<lambda>x. fst x \<noteq> 0),
      py_float = (\<lambda>s. if s = ''19.4'' then Some (194, 1)
                       else if s = ''-99.1'' then Some (- 991, 1) else None),
      guess_extension = (\<lambda>m. if m = ''image/png'' then Some ''.png'' else None),
      b64decode = (\<lambda>s. if s = ''aGk='' then Some [104, 105]
                        else if s = ''!!!'' then Some [] else None),
      strftime_Ymd = (\<lambda>d. str_nat (year d) @ ''-'' @ (if month d < 10 then ''0'' else [])
                         @ str_nat (month d) @ ''-'' @ (if day d < 10 then ''0'' else [])
                         @ str_nat (day d)),
      today_at_import = \<lparr>year = 2024, month = 5, day = 1\<rparr>,
      uuid4_str = (\<lambda>n. if n = 0 then ''3f2b8c1e-5d47-4a69-9b0c-7e1d2f3a4b5c''
                        else ''a1b2c3d4-e5f6-4789-8abc-def012345678'')\<rparr>"

definition inc_ex :: Incidencia where
  "inc_ex =
     \<lparr>id_incidencia = ''r1'', id_usuario_emisor = ''7'', id_catalogo = ''c1'',
      subcategoria = ''s1'', asunto = ''broken light'', descripcion = ''dark street'',
      imagen = None, video = None, audio = None,
      fecha_emision = \<lparr>year = 2024, month = 5, day = 2\<rparr>,
      ubicacion_lat = None, ubicacion_lng = None, status = Some ''pending''\<rparr>"

definition world_ex :: world where
  "world_ex =
     \<lparr>rows = [inc_ex], files = Map.empty, dirs = {UPLOAD_DIR}, uuid_calls = 0,
      today = \<lparr>year = 2024, month = 5, day = 2\<rparr>\<rparr>"

text \<open>A draft that leaves out the date, the media and the location.\<close>

definition draft_ex :: "(int \<times> nat) IncidenciaCreate" where
  "draft_ex =
     IncidenciaCreate_of lib_ex ''7'' ''c1'' ''s1'' ''broken light'' ''dark street''
       Omitted None None None None"

text \<open>A table with two reports, one by the reporter \<^verbatim>\<open>7\<close> and one by the reporter \<^verbatim>\<open>0\<close>.\<close>

definition inc_ex0 :: Incidencia where
  "inc_ex0 = inc_ex\<lparr>id_incidencia := ''r2'', id_usuario_emisor := ''0''\<rparr>"

definition world_ex2 :: world where
  "world_ex2 = world_ex\<lparr>rows := [inc_ex, inc_ex0]\<rparr>"

text \<open>A draft whose location holds texts, one of them not a number.\<close>

definition draft_ex_abc :: "(int \<times> nat) IncidenciaCreate" where
  "draft_ex_abc =
     draft_ex\<lparr>c_ubicacion := Some [(''lat'', PStr ''abc''), (''lng'', PStr ''19.4'')]\<rparr>"

text \<open>A table whose one report has a location.\<close>

definition world_ex_loc :: world where
  "world_ex_loc =
     world_ex\<lparr>rows := [inc_ex\<lparr>ubicacion_lat := Some ''19.4'', ubicacion_lng := Some ''-99.1''\<rparr>]\<rparr>"

section \<open>Status update\<close>

lemma set_status_first_nth:
  "\<exists>r\<in>set rs. id_incidencia r = i \<Longrightarrow>
   \<exists>k<length rs. id_incidencia (rs ! k) = i \<and> (\<forall>j<k. id_incidencia (rs ! j) \<noteq> i) \<and>
      set_status_first i st rs = rs[k := (rs ! k)\<lparr>status := Some st\<rparr>]"
proof (induction rs)
  case Nil
  then show ?case by simp
next
  case (Cons r rs)
  show ?case
  proof (cases "id_incidencia r = i")
    case True
    then have "id_incidencia ((r # rs) ! 0) = i \<and> (\<forall>j<0. id_incidencia ((r # rs) ! j) \<noteq> i) \<and>
      set_status_first i st (r # rs) = (r # rs)[0 := ((r # rs) ! 0)\<lparr>status := Some st\<rparr>]"
      by simp
    then show ?thesis by (intro exI[of _ 0]) simp
  next
    case False
    with Cons.prems have "\<exists>r\<in>set rs. id_incidencia r = i" by auto
    from Cons.IH[OF this] obtain k where k: "k < length rs" "id_incidencia (rs ! k) = i"
      "\<forall>j<k. id_incidencia (rs ! j) \<noteq> i"
      "set_status_first i st rs = rs[k := (rs ! k)\<lparr>status := Some st\<rparr>]" by blast
    have "\<forall>j<Suc k. id_incidencia ((r # rs) ! j) \<noteq> i"
      using False k(3) by (auto simp: less_Suc_eq_0_disj)
    with k False show ?thesis
      by (intro exI[of _ "Suc k"]) simp
  qed
qed

lemma find_id_None:
  "find (\<lambda>r. id_incidencia r = i) rs = None \<longleftrightarrow> (\<forall>r\<in>set rs. id_incidencia r \<noteq> i)"
  by (auto simp: find_None_iff)

text \<open>
  Claim C5. For an identifier some row has, the status update answers with its message
  and the table afterwards is the table before with one row changed, a row with that
  identifier, and changed in its status field only, to the new status; nothing else of
  the world changes. For an identifier no row has, it raises the 404 error and the world
  is the one before.
\<close>

theorem update_status_frame:
  "((\<exists>r\<in>set (rows w). id_incidencia r = i) \<longrightarrow>
      (\<exists>k<length (rows w). id_incidencia (rows w ! k) = i \<and>
         update_incidencia_status i st w =
           (Inr (''Estado de incidencia cambiado a '' @ st),
            w\<lparr>rows := (rows w)[k := (rows w ! k)\<lparr>status := Some st\<rparr>]\<rparr>))) \<and>
   ((\<forall>r\<in>set (rows w). id_incidencia r \<noteq> i) \<longrightarrow>
      update_incidencia_status i st w =
        (Inl (HTTPException 404 (Text ''Incidencia no encontrada'')), w))"
proof (intro conjI impI)
  assume ex: "\<exists>r\<in>set (rows w). id_incidencia r = i"
  then have "find (\<lambda>r. id_incidencia r = i) (rows w) \<noteq> None"
    by (simp add: find_id_None)
  then obtain r where f: "find (\<lambda>r. id_incidencia r = i) (rows w) = Some r" by blast
  from set_status_first_nth[OF ex, of st] obtain k where
    "k < length (rows w)" "id_incidencia (rows w ! k) = i"
    "set_status_first i st (rows w) = (rows w)[k := (rows w ! k)\<lparr>status := Some st\<rparr>]" by blast
  with f show "\<exists>k<length (rows w). id_incidencia (rows w ! k) = i \<and>
         update_incidencia_status i st w =
           (Inr (''Estado de incidencia cambiado a '' @ st),
            w\<lparr>rows := (rows w)[k := (rows w ! k)\<lparr>status := Some st\<rparr>]\<rparr>)"
    by (intro exI[of _ k]) (simp add: update_incidencia_status_def)
next
  assume "\<forall>r\<in>set (rows w). id_incidencia r \<noteq> i"
  then have "find (\<lambda>r. id_incidencia r = i) (rows w) = None" by (simp add: find_id_None)
  then show "update_incidencia_status i st w =
        (Inl (HTTPException 404 (Text ''Incidencia no encontrada'')), w)"
    by (simp add: update_incidencia_status_def not_found_def)
qed

theorem update_status_frame_witness:
  "(\<exists>r\<in>set (rows world_ex). id_incidencia r = ''r1'') \<and>
   update_incidencia_status ''r1'' ''closed'' world_ex =
     (Inr ''Estado de incidencia cambiado a closed'',
      world_ex\<lparr>rows := [inc_ex\<lparr>status := Some ''closed''\<rparr>]\<rparr>) \<and>
   ''r9'' \<notin> id_incidencia ` set (rows world_ex) \<and>
   update_incidencia_status ''r9'' ''closed'' world_ex =
     (Inl (HTTPException 404 (Text ''Incidencia no encontrada'')), world_ex)"
  using update_status_frame [of world_ex "''r1''" "''closed''"]
        update_status_frame [of world_ex "''r9''" "''closed''"]
  by (simp add: world_ex_def inc_ex_def)

section \<open>Creation\<close>



lemma str_split_nonempty: "str_split c s \<noteq> []"
  by (induction s) (auto split: list.splits)

lemma save_base64_file_rows: "rows (snd (save_base64_file L s d w)) = rows w"
  by (auto simp: save_base64_file_def Let_def split: list.splits option.splits)

lemma str_split_no_sep: "c \<notin> set s \<Longrightarrow> str_split c s = [s]"
  by (induction s) auto

lemma str_split_sep: "c \<in> set s \<Longrightarrow> \<exists>a b r. str_split c s = a # b # r"
proof (induction s)
  case Nil
  then show ?case by simp
next
  case (Cons x xs)
  show ?case
  proof (cases "x = c")
    case True
    obtain y ys where "str_split c xs = y # ys"
      using str_split_nonempty[of c xs] by (cases "str_split c xs") auto
    with True show ?thesis by simp
  next
    case False
    with Cons.prems have "c \<in> set xs" by simp
    from Cons.IH[OF this] obtain a b r where "str_split c xs = a # b # r" by blast
    with False show ?thesis by simp
  qed
qed

lemma str_split_max1_comma:
  "c \<in> set s \<Longrightarrow>
   str_split_max1 c s = [takeWhile (\<lambda>x. x \<noteq> c) s, tl (dropWhile (\<lambda>x. x \<noteq> c) s)]"
  by (simp add: str_split_max1_def)

lemma save_base64_file_no_comma:
  "CHR '','' \<notin> set s \<Longrightarrow> save_base64_file L s d w = (Inl (ArchivoValueError UnpackValueError), w)"
  by (simp add: save_base64_file_def str_split_max1_def)

lemma save_base64_file_no_colon:
  assumes "CHR '','' \<in> set s" and "CHR '':'' \<notin> set (takeWhile (\<lambda>x. x \<noteq> CHR '','') s)"
  shows "save_base64_file L s d w = (Inl (ArchivoValueError IndexError), w)"
  unfolding save_base64_file_def str_split_max1_comma[OF assms(1)]
  by (simp add: str_split_no_sep[OF assms(2)])

lemma save_base64_file_colon:
  assumes "CHR '','' \<in> set s" and "CHR '':'' \<in> set (takeWhile (\<lambda>x. x \<noteq> CHR '','') s)"
  shows "\<exists>mime. save_base64_file L s d w =
     (case b64decode L (tl (dropWhile (\<lambda>x. x \<noteq> CHR '','') s)) of
        None \<Rightarrow> (Inl (ArchivoValueError BinasciiError), w)
      | Some file_data \<Rightarrow>
          (Inr (os_path_join d (uuid4_str L (uuid_calls w) @ extension_of L mime)),
           w\<lparr>uuid_calls := Suc (uuid_calls w),
             dirs := insert d (dirs w),
             files := (files w)
               (os_path_join d (uuid4_str L (uuid_calls w) @ extension_of L mime)
                  \<mapsto> file_data)\<rparr>))"
proof -
  from str_split_sep[OF assms(2)] obtain a b r where
    h: "str_split CHR '':'' (takeWhile (\<lambda>x. x \<noteq> CHR '','') s) = a # b # r" by blast
  obtain mime ms where m: "str_split CHR '';'' b = mime # ms"
    using str_split_nonempty[of "CHR '';''" b] by (cases "str_split CHR '';'' b") auto
  have "save_base64_file L s d w =
     (case b64decode L (tl (dropWhile (\<lambda>x. x \<noteq> CHR '','') s)) of
        None \<Rightarrow> (Inl (ArchivoValueError BinasciiError), w)
      | Some file_data \<Rightarrow>
          (Inr (os_path_join d (uuid4_str L (uuid_calls w) @ extension_of L mime)),
           w\<lparr>uuid_calls := Suc (uuid_calls w),
             dirs := insert d (dirs w),
             files := (files w)
               (os_path_join d (uuid4_str L (uuid_calls w) @ extension_of L mime)
                  \<mapsto> file_data)\<rparr>))"
    unfolding save_base64_file_def str_split_max1_comma[OF assms(1)]
    by (simp add: h m Let_def split: option.splits)
  then show ?thesis by blast
qed

lemma save_base64_file_raises:
  assumes "decoder_raises L s"
  shows "\<exists>e. save_base64_file L s d w = (Inl (ArchivoValueError e), w)"
proof (cases "CHR '','' \<in> set s")
  case False
  then show ?thesis by (simp add: save_base64_file_no_comma)
next
  case comma: True
  show ?thesis
  proof (cases "CHR '':'' \<in> set (takeWhile (\<lambda>x. x \<noteq> CHR '','') s)")
    case False
    from save_base64_file_no_colon[OF comma this] show ?thesis by blast
  next
    case True
    with comma assms have "b64decode L (tl (dropWhile (\<lambda>x. x \<noteq> CHR '','') s)) = None"
      by (simp add: decoder_raises_def)
    with save_base64_file_colon[OF comma True, of L d w] show ?thesis by auto
  qed
qed

lemma save_base64_file_accepts:
  assumes "\<not> decoder_raises L s"
  shows "\<exists>p w'. save_base64_file L s d w = (Inr p, w')"
proof -
  from assms have comma: "CHR '','' \<in> set s"
    and colon: "CHR '':'' \<in> set (takeWhile (\<lambda>x. x \<noteq> CHR '','') s)"
    and "b64decode L (tl (dropWhile (\<lambda>x. x \<noteq> CHR '','') s)) \<noteq> None"
    by (simp_all add: decoder_raises_def)
  then obtain bs where "b64decode L (tl (dropWhile (\<lambda>x. x \<noteq> CHR '','') s)) = Some bs"
    by auto
  with save_base64_file_colon[OF comma colon, of L d w] show ?thesis by auto
qed

lemma save_base64_file_Inl:
  assumes "save_base64_file L s d w = (Inl e, w')"
  shows "decoder_raises L s \<and> w' = w \<and> (\<exists>c. e = ArchivoValueError c)"
proof -
  have r: "decoder_raises L s"
  proof (rule ccontr)
    assume "\<not> decoder_raises L s"
    from save_base64_file_accepts[OF this, of d w] assms show False by auto
  qed
  from save_base64_file_raises[OF r, of d w] assms r show ?thesis by auto
qed

lemma save_base64_file_rows': "save_base64_file L s d w = (r, w') \<Longrightarrow> rows w' = rows w"
  using save_base64_file_rows[of L s d w] by simp

lemma save_media_rows': "save_media L f sub w = (r, w') \<Longrightarrow> rows w' = rows w"
  by (auto simp: save_media_def split: option.splits prod.splits sum.splits if_splits
      dest: save_base64_file_rows')

lemma save_media_raises:
  "f = Some s \<Longrightarrow> s \<noteq> [] \<Longrightarrow> decoder_raises L s \<Longrightarrow>
   \<exists>e. save_media L f sub w = (Inl (ArchivoValueError e), w)"
  using save_base64_file_raises[of L s "os_path_join UPLOAD_DIR sub" w]
  by (auto simp: save_media_def)

lemma save_media_Inl:
  "save_media L f sub w = (Inl e, w') \<Longrightarrow> \<exists>c. e = ArchivoValueError c"
  by (auto simp: save_media_def split: option.splits if_splits prod.splits sum.splits
      dest: save_base64_file_Inl)

lemma db_add_commit_Inl: "db_add_commit L inc lat lng img vid aud w = (Inl e, w') \<Longrightarrow> rows w' = rows w"
  by (auto simp: db_add_commit_def Let_def split: option.splits if_splits)

lemma create_incidencia_Inl:
  "create_incidencia L inc w = (Inl h, w') \<Longrightarrow> rows w' = rows w \<and> (\<exists>e. h = HTTPException 400 (StrOf e))"
  by (auto simp: create_incidencia_def Let_def bad_request_def
      split: prod.splits sum.splits dest!: save_media_rows' db_add_commit_Inl)


lemma create_err1:
  "save_media L (c_imagen inc) ''images'' w = (Inl e, w1) \<Longrightarrow>
   create_incidencia L inc w = (Inl (HTTPException 400 (StrOf e)), w1)"
  by (simp add: create_incidencia_def bad_request_def)

lemma create_err2:
  "save_media L (c_imagen inc) ''images'' w = (Inr x, w0) \<Longrightarrow>
   save_media L (c_video inc) ''videos'' w0 = (Inl e, w1) \<Longrightarrow>
   create_incidencia L inc w = (Inl (HTTPException 400 (StrOf e)), w1)"
  by (simp add: create_incidencia_def bad_request_def)

lemma create_err3:
  "save_media L (c_imagen inc) ''images'' w = (Inr x, w0) \<Longrightarrow>
   save_media L (c_video inc) ''videos'' w0 = (Inr y, w0') \<Longrightarrow>
   save_media L (c_audio inc) ''audios'' w0' = (Inl e, w1) \<Longrightarrow>
   create_incidencia L inc w = (Inl (HTTPException 400 (StrOf e)), w1)"
  by (simp add: create_incidencia_def bad_request_def)

lemma create_ok:
  "save_media L (c_imagen inc) ''images'' w = (Inr x, w1) \<Longrightarrow>
   save_media L (c_video inc) ''videos'' w1 = (Inr y, w2) \<Longrightarrow>
   save_media L (c_audio inc) ''audios'' w2 = (Inr z, w3) \<Longrightarrow>
   create_incidencia L inc w =
     (case db_add_commit L inc
             (str_if_truthy L (ubicacion_get (c_ubicacion inc) ''lat''))
             (str_if_truthy L (ubicacion_get (c_ubicacion inc) ''lng'')) x y z w3 of
        (Inl e, w4) \<Rightarrow> (Inl (bad_request e), w4)
      | (Inr new_id, w4) \<Rightarrow> (Inr (''Incidencia creada correctamente'', new_id), w4))"
  by (simp add: create_incidencia_def bad_request_def)

text \<open>
  Claim C1, amended. When a media field of the draft holds a non-empty payload that has no
  comma, or whose header, the part before the first comma, has no colon, or whose body
  \<^verbatim>\<open>b64decode\<close> refuses, the creation raises the 400 error, whose detail is the
  decoder's \<^verbatim>\<open>ValueError\<close>, and the table afterwards is the table before.
\<close>

theorem malformed_media_rejected:
  assumes "c_imagen inc = Some s \<or> c_video inc = Some s \<or> c_audio inc = Some s"
    and "s \<noteq> []" and "decoder_raises L s"
  shows "\<exists>e. fst (create_incidencia L inc w) = Inl (HTTPException 400 (StrOf (ArchivoValueError e))) \<and>
             rows (snd (create_incidencia L inc w)) = rows w"
proof -
  obtain r1 w1 where s1: "save_media L (c_imagen inc) ''images'' w = (r1, w1)" by (cases "save_media L (c_imagen inc) ''images'' w")
  obtain r2 w2 where s2: "save_media L (c_video inc) ''videos'' w1 = (r2, w2)" by (cases "save_media L (c_video inc) ''videos'' w1")
  obtain r3 w3 where s3: "save_media L (c_audio inc) ''audios'' w2 = (r3, w3)" by (cases "save_media L (c_audio inc) ''audios'' w2")
  have "\<exists>e w'. create_incidencia L inc w = (Inl (HTTPException 400 (StrOf (ArchivoValueError e))), w')"
  proof (cases r1)
    case (Inl e)
    with s1 save_media_Inl[of L "c_imagen inc" "''images''" w e w1]
      create_err1[of L inc w e w1]
    show ?thesis by auto
  next
    case r1: (Inr x)
    have nimg: "c_imagen inc \<noteq> Some s"
    proof
      assume "c_imagen inc = Some s"
      from save_media_raises[OF this assms(2,3), of "''images''" w] s1 r1
      show False by simp
    qed
    show ?thesis
    proof (cases r2)
      case (Inl e)
      with s1 s2 r1 save_media_Inl[of L "c_video inc" "''videos''" w1 e w2]
        create_err2[of L inc w x w1 e w2]
      show ?thesis by auto
    next
      case r2: (Inr y)
      have nvid: "c_video inc \<noteq> Some s"
      proof
        assume "c_video inc = Some s"
        from save_media_raises[OF this assms(2,3), of "''videos''" w1] s2 r2
        show False by simp
      qed
      with nimg assms(1) have "c_audio inc = Some s" by blast
      from save_media_raises[OF this assms(2,3), of "''audios''" w2] s3
      obtain e where "r3 = Inl (ArchivoValueError e)" "w3 = w2" by auto
      with s1 s2 s3 r1 r2 create_err3[of L inc w x w1 y w2 "ArchivoValueError e" w2]
      show ?thesis by auto
    qed
  qed
  then obtain e w' where c: "create_incidencia L inc w = (Inl (HTTPException 400 (StrOf (ArchivoValueError e))), w')"
    by blast
  from create_incidencia_Inl[OF c] c show ?thesis by auto
qed



theorem malformed_media_rejected_witness:
  "decoder_raises lib_ex ''no separator'' \<and>
   create_incidencia lib_ex (draft_ex\<lparr>c_video := Some ''no separator''\<rparr>) world_ex =
     (Inl (HTTPException 400 (StrOf (ArchivoValueError UnpackValueError))), world_ex) \<and>
   decoder_raises lib_ex ''image/png;base64,aGk='' \<and>
   create_incidencia lib_ex (draft_ex\<lparr>c_imagen := Some ''image/png;base64,aGk=''\<rparr>) world_ex =
     (Inl (HTTPException 400 (StrOf (ArchivoValueError IndexError))), world_ex) \<and>
   decoder_raises lib_ex ''data:image/png;base64,no'' \<and>
   create_incidencia lib_ex (draft_ex\<lparr>c_audio := Some ''data:image/png;base64,no''\<rparr>) world_ex =
     (Inl (HTTPException 400 (StrOf (ArchivoValueError BinasciiError))), world_ex)"
  using malformed_media_rejected [of "draft_ex\<lparr>c_video := Some ''no separator''\<rparr>"
      "''no separator''" lib_ex world_ex]
    malformed_media_rejected [of "draft_ex\<lparr>c_imagen := Some ''image/png;base64,aGk=''\<rparr>"
      "''image/png;base64,aGk=''" lib_ex world_ex]
    malformed_media_rejected [of "draft_ex\<lparr>c_audio := Some ''data:image/png;base64,no''\<rparr>"
      "''data:image/png;base64,no''" lib_ex world_ex]
  by (simp add: decoder_raises_def draft_ex_def IncidenciaCreate_of_def create_incidencia_def
      save_media_def save_base64_file_def str_split_max1_def bad_request_def lib_ex_def
      extension_of_def Let_def)

text \<open>
  Payloads the claim counts as malformed and the creation takes, adding a row: the empty
  payload, which has no comma; a body with characters that are not base64, which
  \<^verbatim>\<open>b64decode\<close> skips; and headers that are not of the shape \<^verbatim>\<open>data:<mime-type>;base64\<close>
  but hold a colon.
\<close>

theorem malformed_media_counterexample:
  "CHR '','' \<notin> set ([] :: string) \<and>
   fst (create_incidencia lib_ex (draft_ex\<lparr>c_imagen := Some []\<rparr>) world_ex) =
     Inr (''Incidencia creada correctamente'', ''3f2b8c1e-5d47-4a69-9b0c-7e1d2f3a4b5c'') \<and>
   length (rows (snd (create_incidencia lib_ex (draft_ex\<lparr>c_imagen := Some []\<rparr>) world_ex))) = 2 \<and>
   CHR ''!'' \<notin> set base64_alphabet \<and>
   fst (create_incidencia lib_ex
          (draft_ex\<lparr>c_imagen := Some ''data:image/png;base64,!!!''\<rparr>) world_ex) =
     Inr (''Incidencia creada correctamente'', ''a1b2c3d4-e5f6-4789-8abc-def012345678'') \<and>
   length (rows (snd (create_incidencia lib_ex
          (draft_ex\<lparr>c_imagen := Some ''data:image/png;base64,!!!''\<rparr>) world_ex))) = 2 \<and>
   \<not> data_uri_header ''a:b:c;d'' \<and>
   fst (create_incidencia lib_ex (draft_ex\<lparr>c_imagen := Some ''a:b:c;d,aGk=''\<rparr>) world_ex) =
     Inr (''Incidencia creada correctamente'', ''a1b2c3d4-e5f6-4789-8abc-def012345678'') \<and>
   length (rows (snd (create_incidencia lib_ex
          (draft_ex\<lparr>c_imagen := Some ''a:b:c;d,aGk=''\<rparr>) world_ex))) = 2 \<and>
   \<not> data_uri_header ''data:'' \<and>
   fst (create_incidencia lib_ex (draft_ex\<lparr>c_imagen := Some ''data:,aGk=''\<rparr>) world_ex) =
     Inr (''Incidencia creada correctamente'', ''a1b2c3d4-e5f6-4789-8abc-def012345678'') \<and>
   length (rows (snd (create_incidencia lib_ex
          (draft_ex\<lparr>c_imagen := Some ''data:,aGk=''\<rparr>) world_ex))) = 2"
  by (simp add: draft_ex_def IncidenciaCreate_of_def fecha_emision_field_def lib_ex_def
      world_ex_def inc_ex_def create_incidencia_def save_media_def db_add_commit_def
      save_base64_file_def str_split_max1_def extension_of_def os_path_join_def UPLOAD_DIR_def
      str_if_truthy_def ubicacion_get_def Let_def data_uri_header_def base64_alphabet_def)

lemma save_media_absent: "f = None \<or> f = Some [] \<Longrightarrow> save_media L f sub w = (Inr None, w)"
  by (auto simp: save_media_def)

lemma create_no_media_eq:
  assumes "c_imagen inc = None \<or> c_imagen inc = Some []"
    and "c_video inc = None \<or> c_video inc = Some []"
    and "c_audio inc = None \<or> c_audio inc = Some []"
  shows "create_incidencia L inc w =
     (case db_add_commit L inc
             (str_if_truthy L (ubicacion_get (c_ubicacion inc) ''lat''))
             (str_if_truthy L (ubicacion_get (c_ubicacion inc) ''lng'')) None None None w of
        (Inl e, w4) \<Rightarrow> (Inl (bad_request e), w4)
      | (Inr new_id, w4) \<Rightarrow> (Inr (''Incidencia creada correctamente'', new_id), w4))"
  by (rule create_ok) (simp_all add: save_media_absent assms)

lemma db_add_commit_Inr:
  "db_add_commit L inc lat lng img vid aud w = (Inr i, w') \<Longrightarrow>
   \<exists>r. rows w' = rows w @ [r] \<and> id_incidencia r = i \<and> imagen r = img \<and> video r = vid \<and>
       audio r = aud \<and> status r = Some ''pending'' \<and> ubicacion_lat r = lat \<and>
       ubicacion_lng r = lng \<and> c_fecha_emision inc = Some (fecha_emision r) \<and>
       id_usuario_emisor r = c_id_usuario_emisor inc"
  by (auto simp: db_add_commit_def Let_def split: option.splits if_splits)

lemma db_add_commit_ok:
  "c_fecha_emision inc = Some d \<Longrightarrow>
   uuid4_str L (uuid_calls w) \<notin> id_incidencia ` set (rows w) \<Longrightarrow>
   db_add_commit L inc lat lng img vid aud w =
     (Inr (uuid4_str L (uuid_calls w)),
      w\<lparr>uuid_calls := Suc (uuid_calls w),
        rows := rows w @
          [\<lparr>id_incidencia = uuid4_str L (uuid_calls w),
            id_usuario_emisor = c_id_usuario_emisor inc,
            id_catalogo = c_id_catalogo inc,
            subcategoria = c_subcategoria inc,
            asunto = c_asunto inc,
            descripcion = c_descripcion inc,
            imagen = img, video = vid, audio = aud,
            fecha_emision = d,
            ubicacion_lat = lat, ubicacion_lng = lng,
            status = Some ''pending''\<rparr>]\<rparr>)"
  by (simp add: db_add_commit_def Let_def)

text \<open>
  Claim C6. For a draft with no media: whenever the creation returns, the table has one
  more row, the one with the returned identifier, whose image, video and audio are null
  and whose status is \<^verbatim>\<open>pending\<close>; and the creation does return when the draft has a
  date and the identifier drawn is not yet a key of the table.
\<close>

theorem create_without_media:
  assumes "c_imagen inc = None" and "c_video inc = None" and "c_audio inc = None"
  shows "(\<forall>m i w'. create_incidencia L inc w = (Inr (m, i), w') \<longrightarrow>
            (\<exists>r. rows w' = rows w @ [r] \<and> id_incidencia r = i \<and> imagen r = None \<and>
                 video r = None \<and> audio r = None \<and> status r = Some ''pending'')) \<and>
         (c_fecha_emision inc \<noteq> None \<and>
          uuid4_str L (uuid_calls w) \<notin> id_incidencia ` set (rows w) \<longrightarrow>
            (\<exists>w'. create_incidencia L inc w =
               (Inr (''Incidencia creada correctamente'', uuid4_str L (uuid_calls w)), w')))"
proof (intro conjI allI impI)
  fix m i w'
  assume c: "create_incidencia L inc w = (Inr (m, i), w')"
  have "create_incidencia L inc w =
     (case db_add_commit L inc
             (str_if_truthy L (ubicacion_get (c_ubicacion inc) ''lat''))
             (str_if_truthy L (ubicacion_get (c_ubicacion inc) ''lng'')) None None None w of
        (Inl e, w4) \<Rightarrow> (Inl (bad_request e), w4)
      | (Inr new_id, w4) \<Rightarrow> (Inr (''Incidencia creada correctamente'', new_id), w4))"
    using assms by (intro create_no_media_eq) simp_all
  with c have "db_add_commit L inc
             (str_if_truthy L (ubicacion_get (c_ubicacion inc) ''lat''))
             (str_if_truthy L (ubicacion_get (c_ubicacion inc) ''lng'')) None None None w = (Inr i, w')"
    by (auto split: prod.splits sum.splits)
  from db_add_commit_Inr[OF this]
  show "\<exists>r. rows w' = rows w @ [r] \<and> id_incidencia r = i \<and> imagen r = None \<and>
                 video r = None \<and> audio r = None \<and> status r = Some ''pending''"
    by blast
next
  assume a: "c_fecha_emision inc \<noteq> None \<and>
          uuid4_str L (uuid_calls w) \<notin> id_incidencia ` set (rows w)"
  then obtain d where d: "c_fecha_emision inc = Some d" by auto
  have "create_incidencia L inc w =
     (case db_add_commit L inc
             (str_if_truthy L (ubicacion_get (c_ubicacion inc) ''lat''))
             (str_if_truthy L (ubicacion_get (c_ubicacion inc) ''lng'')) None None None w of
        (Inl e, w4) \<Rightarrow> (Inl (bad_request e), w4)
      | (Inr new_id, w4) \<Rightarrow> (Inr (''Incidencia creada correctamente'', new_id), w4))"
    using assms by (intro create_no_media_eq) simp_all
  with db_add_commit_ok[OF d, of L w] a
  show "\<exists>w'. create_incidencia L inc w =
               (Inr (''Incidencia creada correctamente'', uuid4_str L (uuid_calls w)), w')"
    by simp
qed

theorem create_without_media_witness:
  "c_imagen draft_ex = None \<and> c_video draft_ex = None \<and> c_audio draft_ex = None \<and>
   c_fecha_emision draft_ex \<noteq> None \<and>
   uuid4_str lib_ex (uuid_calls world_ex) \<notin> id_incidencia ` set (rows world_ex) \<and>
   create_incidencia lib_ex draft_ex world_ex =
     (Inr (''Incidencia creada correctamente'', ''3f2b8c1e-5d47-4a69-9b0c-7e1d2f3a4b5c''),
      world_ex\<lparr>uuid_calls := 1,
        rows := [inc_ex,
          \<lparr>id_incidencia = ''3f2b8c1e-5d47-4a69-9b0c-7e1d2f3a4b5c'', id_usuario_emisor = ''7'',
           id_catalogo = ''c1'', subcategoria = ''s1'', asunto = ''broken light'',
           descripcion = ''dark street'', imagen = None, video = None, audio = None,
           fecha_emision = \<lparr>year = 2024, month = 5, day = 1\<rparr>,
           ubicacion_lat = None, ubicacion_lng = None, status = Some ''pending''\<rparr>]\<rparr>)"
  using create_without_media [of draft_ex lib_ex world_ex]
  by (simp add: draft_ex_def IncidenciaCreate_of_def fecha_emision_field_def lib_ex_def
      world_ex_def inc_ex_def create_incidencia_def save_media_def db_add_commit_def
      str_if_truthy_def ubicacion_get_def Let_def)




section \<open>The media decoder on a well-formed payload\<close>









section \<open>The status invariant\<close>

lemma create_incidencia_Inr:
  "create_incidencia L inc w = (Inr (m, i), w') \<Longrightarrow>
   \<exists>img vid aud w3. rows w3 = rows w \<and>
     db_add_commit L inc
       (str_if_truthy L (ubicacion_get (c_ubicacion inc) ''lat''))
       (str_if_truthy L (ubicacion_get (c_ubicacion inc) ''lng'')) img vid aud w3 = (Inr i, w')"
proof -
  assume c: "create_incidencia L inc w = (Inr (m, i), w')"
  obtain r1 w1 where s1: "save_media L (c_imagen inc) ''images'' w = (r1, w1)"
    by (cases "save_media L (c_imagen inc) ''images'' w")
  obtain r2 w2 where s2: "save_media L (c_video inc) ''videos'' w1 = (r2, w2)"
    by (cases "save_media L (c_video inc) ''videos'' w1")
  obtain r3 w3 where s3: "save_media L (c_audio inc) ''audios'' w2 = (r3, w3)"
    by (cases "save_media L (c_audio inc) ''audios'' w2")
  from c s1 create_err1[of L inc w _ w1] obtain x where x: "r1 = Inr x" by (cases r1) auto
  from c s1 s2 x create_err2[of L inc w x w1 _ w2] obtain y where y: "r2 = Inr y"
    by (cases r2) auto
  from c s1 s2 s3 x y create_err3[of L inc w x w1 y w2 _ w3] obtain z where z: "r3 = Inr z"
    by (cases r3) auto
  from s1 s2 s3 have rw: "rows w3 = rows w" by (auto dest!: save_media_rows')
  from create_ok[of L inc w x w1 y w2 z w3] s1 s2 s3 x y z c
  have "db_add_commit L inc
       (str_if_truthy L (ubicacion_get (c_ubicacion inc) ''lat''))
       (str_if_truthy L (ubicacion_get (c_ubicacion inc) ''lng'')) x y z w3 = (Inr i, w')"
    by (auto split: prod.splits sum.splits)
  with rw show ?thesis by blast
qed

lemma create_incidencia_new_row:
  "create_incidencia L inc w = (Inr (m, i), w') \<Longrightarrow>
   \<exists>r. rows w' = rows w @ [r] \<and> id_incidencia r = i \<and> status r = Some ''pending'' \<and>
       ubicacion_lat r = str_if_truthy L (ubicacion_get (c_ubicacion inc) ''lat'') \<and>
       ubicacion_lng r = str_if_truthy L (ubicacion_get (c_ubicacion inc) ''lng'') \<and>
       c_fecha_emision inc = Some (fecha_emision r)"
proof -
  assume "create_incidencia L inc w = (Inr (m, i), w')"
  from create_incidencia_Inr[OF this] obtain img vid aud w3 where
    rw: "rows w3 = rows w" and
    d: "db_add_commit L inc
       (str_if_truthy L (ubicacion_get (c_ubicacion inc) ''lat''))
       (str_if_truthy L (ubicacion_get (c_ubicacion inc) ''lng'')) img vid aud w3 = (Inr i, w')"
    by blast
  from db_add_commit_Inr[OF d] rw show ?thesis by auto
qed

lemma create_incidencia_rows_cases:
  "rows (snd (create_incidencia L inc w)) = rows w \<or>
   (\<exists>r. rows (snd (create_incidencia L inc w)) = rows w @ [r] \<and> status r = Some ''pending'')"
proof (cases "create_incidencia L inc w")
  case (Pair res w')
  show ?thesis
  proof (cases res)
    case (Inl h)
    with Pair create_incidencia_Inl[of L inc w h w'] show ?thesis by simp
  next
    case (Inr mi)
    obtain m i where "mi = (m, i)" by (cases mi)
    with Pair Inr create_incidencia_new_row[of L inc w m i w'] show ?thesis by auto
  qed
qed

lemma delete_first_subset: "set (delete_first i rs) \<subseteq> set rs"
  by (induction rs) auto

lemma set_status_first_status:
  "r \<in> set (set_status_first i st rs) \<Longrightarrow> r \<in> set rs \<or> status r = Some st"
  by (induction rs) (auto split: if_splits)

lemma set_status_first_hits:
  "\<exists>r\<in>set rs. id_incidencia r = i \<Longrightarrow> \<exists>r\<in>set (set_status_first i st rs). status r = Some st"
  by (induction rs) auto

text \<open>
  Claim C9, amended. Creation and deletion keep the invariant that no row's status is the
  empty string, and a row just created has the status \<^verbatim>\<open>pending\<close>. A status update
  stores the status it is given: it keeps the invariant exactly when that status is not
  empty or no row has the identifier.
\<close>

theorem status_invariant:
  assumes "status_nonempty w"
  shows "status_nonempty (snd (create_incidencia L inc w)) \<and>
     (\<forall>m j w'. create_incidencia L inc w = (Inr (m, j), w') \<longrightarrow>
        (\<exists>r. rows w' = rows w @ [r] \<and> id_incidencia r = j \<and> status r = Some ''pending'')) \<and>
     status_nonempty (snd (delete_incidencia i w)) \<and>
     (status_nonempty (snd (update_incidencia_status i st w)) \<longleftrightarrow>
        st \<noteq> [] \<or> i \<notin> id_incidencia ` set (rows w))"
proof (intro conjI allI impI)
  from create_incidencia_rows_cases[of L inc w] assms
  show "status_nonempty (snd (create_incidencia L inc w))"
    by (auto simp: status_nonempty_def)
next
  fix m j w'
  assume "create_incidencia L inc w = (Inr (m, j), w')"
  from create_incidencia_new_row[OF this]
  show "\<exists>r. rows w' = rows w @ [r] \<and> id_incidencia r = j \<and> status r = Some ''pending''"
    by blast
next
  from assms delete_first_subset[of i "rows w"]
  show "status_nonempty (snd (delete_incidencia i w))"
    by (auto simp: delete_incidencia_def status_nonempty_def split: option.splits)
next
  show "status_nonempty (snd (update_incidencia_status i st w)) \<longleftrightarrow>
        st \<noteq> [] \<or> i \<notin> id_incidencia ` set (rows w)"
  proof (cases "i \<in> id_incidencia ` set (rows w)")
    case False
    then have "find (\<lambda>r. id_incidencia r = i) (rows w) = None"
      by (auto simp: find_id_None)
    with assms False show ?thesis by (simp add: update_incidencia_status_def)
  next
    case True
    then have ex: "\<exists>r\<in>set (rows w). id_incidencia r = i" by auto
    then have "find (\<lambda>r. id_incidencia r = i) (rows w) \<noteq> None"
      by (simp add: find_id_None)
    then have u: "rows (snd (update_incidencia_status i st w)) = set_status_first i st (rows w)"
      by (auto simp: update_incidencia_status_def)
    show ?thesis
    proof (cases "st = []")
      case True
      with set_status_first_hits[OF ex, of st] u have "\<not> status_nonempty (snd (update_incidencia_status i st w))"
        by (auto simp: status_nonempty_def)
      with True \<open>i \<in> id_incidencia ` set (rows w)\<close> show ?thesis by simp
    next
      case False
      have "status r \<noteq> Some []" if "r \<in> set (set_status_first i st (rows w))" for r
        using set_status_first_status[OF that] assms False
        by (auto simp: status_nonempty_def)
      with u have "status_nonempty (snd (update_incidencia_status i st w))"
        by (simp add: status_nonempty_def)
      with False show ?thesis by simp
    qed
  qed
qed

theorem status_invariant_witness:
  "status_nonempty world_ex \<and>
   status_nonempty (snd (create_incidencia lib_ex draft_ex world_ex)) \<and>
   status_nonempty (snd (delete_incidencia ''r1'' world_ex)) \<and>
   status_nonempty (snd (update_incidencia_status ''r1'' ''closed'' world_ex))"
proof -
  have h: "status_nonempty world_ex"
    by (simp add: status_nonempty_def world_ex_def inc_ex_def)
  from status_invariant [OF h, of lib_ex draft_ex "''r1''" "''closed''"] h
  show ?thesis by simp
qed

theorem status_empty_counterexample:
  "status_nonempty world_ex \<and>
   update_incidencia_status ''r1'' [] world_ex =
     (Inr ''Estado de incidencia cambiado a '',
      world_ex\<lparr>rows := [inc_ex\<lparr>status := Some []\<rparr>]\<rparr>) \<and>
   \<not> status_nonempty (snd (update_incidencia_status ''r1'' [] world_ex))"
  by (simp add: status_nonempty_def update_incidencia_status_def world_ex_def inc_ex_def)

section \<open>The default date\<close>

lemma omitted_date_general:
  assumes "create_incidencia L (IncidenciaCreate_of L u c s a d Omitted img vid aud ubi) w =
             (Inr (m, i), w')"
  shows "fecha_emision (last (rows w')) = today_at_import L"
proof -
  from create_incidencia_new_row[OF assms] obtain r where
    "rows w' = rows w @ [r]"
    "c_fecha_emision (IncidenciaCreate_of L u c s a d Omitted img vid aud ubi) = Some (fecha_emision r)"
    by blast
  then show ?thesis by (simp add: IncidenciaCreate_of_def fecha_emision_field_def)
qed

text \<open>
  Claim C3 at a failing input. The module was imported on 2024-05-01 and the draft, which
  leaves the date out, is processed on 2024-05-02: the report is stored with the date
  2024-05-01, the value \<^verbatim>\<open>date.today()\<close> had when the class body ran, not with the date
  of processing.
\<close>

theorem omitted_date_is_import_date:
  "today world_ex = \<lparr>year = 2024, month = 5, day = 2\<rparr> \<and>
   draft_ex = IncidenciaCreate_of lib_ex ''7'' ''c1'' ''s1'' ''broken light'' ''dark street''
                Omitted None None None None \<and>
   fst (create_incidencia lib_ex draft_ex world_ex) =
     Inr (''Incidencia creada correctamente'', ''3f2b8c1e-5d47-4a69-9b0c-7e1d2f3a4b5c'') \<and>
   fecha_emision (last (rows (snd (create_incidencia lib_ex draft_ex world_ex)))) =
     \<lparr>year = 2024, month = 5, day = 1\<rparr> \<and>
   fecha_emision (last (rows (snd (create_incidencia lib_ex draft_ex world_ex)))) \<noteq>
     today world_ex"
  by (simp add: draft_ex_def IncidenciaCreate_of_def fecha_emision_field_def lib_ex_def
      world_ex_def inc_ex_def create_incidencia_def save_media_def db_add_commit_def
      str_if_truthy_def ubicacion_get_def Let_def)

section \<open>Listing\<close>

lemma query_incidencias_filter:
  "query_incidencias None rs = Inr rs"
  "query_incidencias (Some 0) rs = Inr rs"
  "n \<noteq> 0 \<Longrightarrow> sqlite_int n \<Longrightarrow>
   query_incidencias (Some n) rs = Inr (filter (\<lambda>r. id_usuario_emisor r = str_int n) rs)"
  "n \<noteq> 0 \<Longrightarrow> \<not> sqlite_int n \<Longrightarrow> query_incidencias (Some n) rs = Inl OverflowError"
  by (simp_all add: query_incidencias_def)

lemma str_int_0: "str_int 0 = ''0''"
  by (simp add: str_int_def str_nat.simps)

text \<open>
  Claim C2 at a failing input. The table holds a report by the reporter \<^verbatim>\<open>7\<close> and one by
  the reporter \<^verbatim>\<open>0\<close>; the listing with the filter \<^verbatim>\<open>0\<close> returns both, as the listing with
  no filter does, and not only the report whose reporter is \<^verbatim>\<open>0\<close>.
\<close>

theorem filter_zero_lists_all:
  "map id_usuario_emisor (rows world_ex2) = [''7'', ''0''] \<and>
   str_int 0 = ''0'' \<and>
   query_incidencias (Some 0) (rows world_ex2) = Inr (rows world_ex2) \<and>
   list_incidencias lib_ex ''https://h/'' (Some 0) world_ex2 =
     list_incidencias lib_ex ''https://h/'' None world_ex2 \<and>
   (case list_incidencias lib_ex ''https://h/'' (Some 0) world_ex2 of
      Inl e \<Rightarrow> [] | Inr vs \<Rightarrow> map r_id_usuario_emisor vs) = [''7'', ''0'']"
  by (simp add: world_ex2_def world_ex_def inc_ex0_def inc_ex_def str_int_0
      query_incidencias_def list_incidencias_def to_response_def ubicacion_view_def
      str_present_def media_url_def lib_ex_def)

section \<open>The stored location\<close>

lemma ubicacion_get_Some: "ubicacion_get (Some d) k = dict_get d k"
  by (simp add: ubicacion_get_def dict_get_def)

lemma dict_get_missing: "map_of d k = None \<Longrightarrow> dict_get d k = PNone"
  by (simp add: dict_get_def)

text \<open>
  Claim C4, amended. The row a creation adds stores each coordinate on its own. When the
  draft has no map, both are null. A coordinate for which the map holds a truthy value is
  stored as the string coercion of that value, whatever the map holds for the other one.
  A coordinate the map does not hold, or holds as null, is stored as null. So the pair
  invariant holds when the map is absent or holds truthy values for both coordinates, and
  fails when the map holds a truthy value for one coordinate and none for the other.
\<close>

theorem location_stored:
  assumes "create_incidencia L inc w = (Inr (m, i), w')"
  shows "\<exists>r. rows w' = rows w @ [r] \<and> id_incidencia r = i \<and>
     (c_ubicacion inc = None \<longrightarrow>
        ubicacion_lat r = None \<and> ubicacion_lng r = None \<and> location_pair_ok r) \<and>
     (\<forall>d. c_ubicacion inc = Some d \<longrightarrow>
        (truthy L (dict_get d ''lat'') \<longrightarrow>
           ubicacion_lat r = Some (py_str L (dict_get d ''lat''))) \<and>
        (truthy L (dict_get d ''lng'') \<longrightarrow>
           ubicacion_lng r = Some (py_str L (dict_get d ''lng''))) \<and>
        (dict_get d ''lat'' = PNone \<longrightarrow> ubicacion_lat r = None) \<and>
        (dict_get d ''lng'' = PNone \<longrightarrow> ubicacion_lng r = None) \<and>
        (map_of d ''lat'' = None \<longrightarrow> dict_get d ''lat'' = PNone) \<and>
        (map_of d ''lng'' = None \<longrightarrow> dict_get d ''lng'' = PNone) \<and>
        (truthy L (dict_get d ''lat'') \<and> truthy L (dict_get d ''lng'') \<longrightarrow>
           location_pair_ok r) \<and>
        (truthy L (dict_get d ''lat'') \<and> dict_get d ''lng'' = PNone \<longrightarrow>
           \<not> location_pair_ok r) \<and>
        (dict_get d ''lat'' = PNone \<and> truthy L (dict_get d ''lng'') \<longrightarrow>
           \<not> location_pair_ok r))"
proof -
  from create_incidencia_new_row[OF assms] obtain r where
    r: "rows w' = rows w @ [r]" "id_incidencia r = i"
    and lat: "ubicacion_lat r = str_if_truthy L (ubicacion_get (c_ubicacion inc) ''lat'')"
    and lng: "ubicacion_lng r = str_if_truthy L (ubicacion_get (c_ubicacion inc) ''lng'')"
    by blast
  have none: "c_ubicacion inc = None \<longrightarrow>
        ubicacion_lat r = None \<and> ubicacion_lng r = None \<and> location_pair_ok r"
    using lat lng by (simp add: ubicacion_get_def str_if_truthy_def location_pair_ok_def)
  have some: "\<forall>d. c_ubicacion inc = Some d \<longrightarrow>
        (truthy L (dict_get d ''lat'') \<longrightarrow>
           ubicacion_lat r = Some (py_str L (dict_get d ''lat''))) \<and>
        (truthy L (dict_get d ''lng'') \<longrightarrow>
           ubicacion_lng r = Some (py_str L (dict_get d ''lng''))) \<and>
        (dict_get d ''lat'' = PNone \<longrightarrow> ubicacion_lat r = None) \<and>
        (dict_get d ''lng'' = PNone \<longrightarrow> ubicacion_lng r = None) \<and>
        (map_of d ''lat'' = None \<longrightarrow> dict_get d ''lat'' = PNone) \<and>
        (map_of d ''lng'' = None \<longrightarrow> dict_get d ''lng'' = PNone) \<and>
        (truthy L (dict_get d ''lat'') \<and> truthy L (dict_get d ''lng'') \<longrightarrow>
           location_pair_ok r) \<and>
        (truthy L (dict_get d ''lat'') \<and> dict_get d ''lng'' = PNone \<longrightarrow>
           \<not> location_pair_ok r) \<and>
        (dict_get d ''lat'' = PNone \<and> truthy L (dict_get d ''lng'') \<longrightarrow>
           \<not> location_pair_ok r)"
  proof (intro allI impI)
    fix d
    assume d: "c_ubicacion inc = Some d"
    have la: "ubicacion_lat r = str_if_truthy L (dict_get d ''lat'')"
      and ln: "ubicacion_lng r = str_if_truthy L (dict_get d ''lng'')"
      using lat lng unfolding d ubicacion_get_Some by simp_all
    show "(truthy L (dict_get d ''lat'') \<longrightarrow>
           ubicacion_lat r = Some (py_str L (dict_get d ''lat''))) \<and>
        (truthy L (dict_get d ''lng'') \<longrightarrow>
           ubicacion_lng r = Some (py_str L (dict_get d ''lng''))) \<and>
        (dict_get d ''lat'' = PNone \<longrightarrow> ubicacion_lat r = None) \<and>
        (dict_get d ''lng'' = PNone \<longrightarrow> ubicacion_lng r = None) \<and>
        (map_of d ''lat'' = None \<longrightarrow> dict_get d ''lat'' = PNone) \<and>
        (map_of d ''lng'' = None \<longrightarrow> dict_get d ''lng'' = PNone) \<and>
        (truthy L (dict_get d ''lat'') \<and> truthy L (dict_get d ''lng'') \<longrightarrow>
           location_pair_ok r) \<and>
        (truthy L (dict_get d ''lat'') \<and> dict_get d ''lng'' = PNone \<longrightarrow>
           \<not> location_pair_ok r) \<and>
        (dict_get d ''lat'' = PNone \<and> truthy L (dict_get d ''lng'') \<longrightarrow>
           \<not> location_pair_ok r)"
      using la ln
      by (auto simp: str_if_truthy_def location_pair_ok_def dict_get_missing)
  qed
  show ?thesis using r none some by (intro exI[of _ r] conjI)
qed

theorem location_stored_witness:
  "create_incidencia lib_ex
     (draft_ex\<lparr>c_ubicacion := Some [(''lat'', PFloat (194, 1)), (''lng'', PFloat (- 991, 1))]\<rparr>)
     world_ex =
     (Inr (''Incidencia creada correctamente'', ''3f2b8c1e-5d47-4a69-9b0c-7e1d2f3a4b5c''),
      world_ex\<lparr>uuid_calls := 1,
        rows := [inc_ex,
          \<lparr>id_incidencia = ''3f2b8c1e-5d47-4a69-9b0c-7e1d2f3a4b5c'', id_usuario_emisor = ''7'',
           id_catalogo = ''c1'', subcategoria = ''s1'', asunto = ''broken light'',
           descripcion = ''dark street'', imagen = None, video = None, audio = None,
           fecha_emision = \<lparr>year = 2024, month = 5, day = 1\<rparr>,
           ubicacion_lat = Some ''19.4'', ubicacion_lng = Some ''-99.1'',
           status = Some ''pending''\<rparr>]\<rparr>)"
proof -
  let ?d = "draft_ex\<lparr>c_ubicacion := Some [(''lat'', PFloat (194, 1)), (''lng'', PFloat (- 991, 1))]\<rparr>"
  let ?w = "world_ex\<lparr>uuid_calls := 1,
        rows := [inc_ex,
          \<lparr>id_incidencia = ''3f2b8c1e-5d47-4a69-9b0c-7e1d2f3a4b5c'', id_usuario_emisor = ''7'',
           id_catalogo = ''c1'', subcategoria = ''s1'', asunto = ''broken light'',
           descripcion = ''dark street'', imagen = None, video = None, audio = None,
           fecha_emision = \<lparr>year = 2024, month = 5, day = 1\<rparr>,
           ubicacion_lat = Some ''19.4'', ubicacion_lng = Some ''-99.1'',
           status = Some ''pending''\<rparr>]\<rparr>"
  have e: "create_incidencia lib_ex ?d world_ex =
     (Inr (''Incidencia creada correctamente'', ''3f2b8c1e-5d47-4a69-9b0c-7e1d2f3a4b5c''), ?w)"
    by (simp add: draft_ex_def IncidenciaCreate_of_def fecha_emision_field_def lib_ex_def
      world_ex_def inc_ex_def create_incidencia_def save_media_def db_add_commit_def
      str_if_truthy_def ubicacion_get_def dict_get_def Let_def)
  from location_stored [OF e] e show ?thesis by simp
qed

theorem location_pair_counterexample:
  "fst (create_incidencia lib_ex (draft_ex\<lparr>c_ubicacion := Some [(''lat'', PInt 1)]\<rparr>) world_ex) =
     Inr (''Incidencia creada correctamente'', ''3f2b8c1e-5d47-4a69-9b0c-7e1d2f3a4b5c'') \<and>
   ubicacion_lat (last (rows (snd (create_incidencia lib_ex
       (draft_ex\<lparr>c_ubicacion := Some [(''lat'', PInt 1)]\<rparr>) world_ex)))) = Some ''1'' \<and>
   ubicacion_lng (last (rows (snd (create_incidencia lib_ex
       (draft_ex\<lparr>c_ubicacion := Some [(''lat'', PInt 1)]\<rparr>) world_ex)))) = None \<and>
   \<not> location_pair_ok (last (rows (snd (create_incidencia lib_ex
       (draft_ex\<lparr>c_ubicacion := Some [(''lat'', PInt 1)]\<rparr>) world_ex))))"
  by (simp add: draft_ex_def IncidenciaCreate_of_def fecha_emision_field_def lib_ex_def
      world_ex_def inc_ex_def create_incidencia_def save_media_def db_add_commit_def
      str_if_truthy_def ubicacion_get_def dict_get_def Let_def location_pair_ok_def
      str_int_def str_nat.simps)

text \<open>
  The guard \<^verbatim>\<open>str(v) if v else None\<close> also takes the number zero for an absent value: the
  map \<^verbatim>\<open>{"lat": 0, "lng": 1}\<close> is stored with a null latitude.
\<close>

lemma zero_latitude_dropped:
  "ubicacion_lat (last (rows (snd (create_incidencia lib_ex
       (draft_ex\<lparr>c_ubicacion := Some [(''lat'', PInt 0), (''lng'', PInt 1)]\<rparr>) world_ex)))) = None \<and>
   ubicacion_lng (last (rows (snd (create_incidencia lib_ex
       (draft_ex\<lparr>c_ubicacion := Some [(''lat'', PInt 0), (''lng'', PInt 1)]\<rparr>) world_ex)))) = Some ''1''"
  by (simp add: draft_ex_def IncidenciaCreate_of_def fecha_emision_field_def lib_ex_def
      world_ex_def inc_ex_def create_incidencia_def save_media_def db_add_commit_def
      str_if_truthy_def ubicacion_get_def dict_get_def Let_def
      str_int_def str_nat.simps)

section \<open>The location in the listing\<close>

lemma ubicacion_view_absent:
  "\<not> (str_present lat \<and> str_present lng) \<Longrightarrow> ubicacion_view L lat lng = Inr None"
  by (auto simp: ubicacion_view_def str_present_def split: option.splits)

lemma ubicacion_view_present:
  "a \<noteq> [] \<Longrightarrow> b \<noteq> [] \<Longrightarrow>
   ubicacion_view L (Some a) (Some b) =
     (case py_float L a of
        None \<Rightarrow> Inl (FloatValueError a)
      | Some x \<Rightarrow>
          (case py_float L b of
             None \<Rightarrow> Inl (FloatValueError b)
           | Some y \<Rightarrow> Inr (Some [(''lat'', PFloat x), (''lng'', PFloat y)])))"
  by (simp add: ubicacion_view_def)

lemma to_response_Inr:
  "to_response L base inc = Inr v \<Longrightarrow>
   ubicacion_view L (ubicacion_lat inc) (ubicacion_lng inc) = Inr (r_ubicacion v) \<and>
   status inc = Some (r_status v)"
  by (auto simp: to_response_def split: sum.splits option.splits)

lemma to_response_Inl:
  "ubicacion_view L (ubicacion_lat inc) (ubicacion_lng inc) = Inl e \<Longrightarrow>
   to_response L base inc = Inl e"
  by (simp add: to_response_def)

lemma to_response_ok:
  "ubicacion_view L (ubicacion_lat inc) (ubicacion_lng inc) = Inr u \<Longrightarrow> status inc = Some st \<Longrightarrow>
   \<exists>v. to_response L base inc = Inr v"
  by (simp add: to_response_def)

lemma responses_Inr:
  "responses L base rs = Inr vs \<Longrightarrow>
   length vs = length rs \<and> (\<forall>k<length rs. to_response L base (rs ! k) = Inr (vs ! k))"
proof (induction rs arbitrary: vs)
  case Nil
  then show ?case by simp
next
  case (Cons r rs)
  from Cons.prems obtain v vs' where v: "to_response L base r = Inr v"
    and vs': "responses L base rs = Inr vs'" and e: "vs = v # vs'"
    by (auto split: sum.splits)
  from Cons.IH[OF vs'] have "length vs' = length rs"
    and "\<forall>k<length rs. to_response L base (rs ! k) = Inr (vs' ! k)" by simp_all
  with v e show ?case by (auto simp: nth_Cons split: nat.splits)
qed

lemma responses_Inl:
  "r \<in> set rs \<Longrightarrow> to_response L base r = Inl e \<Longrightarrow> \<exists>e'. responses L base rs = Inl e'"
  by (induction rs) (auto split: sum.splits)

lemma responses_ok:
  "(\<And>r. r \<in> set rs \<Longrightarrow> \<exists>v. to_response L base r = Inr v) \<Longrightarrow> \<exists>vs. responses L base rs = Inr vs"
proof (induction rs)
  case Nil
  then show ?case by simp
next
  case (Cons r rs)
  from Cons.prems[of r] obtain v where "to_response L base r = Inr v" by auto
  moreover from Cons.IH Cons.prems obtain vs where "responses L base rs = Inr vs" by auto
  ultimately show ?case by simp
qed

lemma list_incidencias_query:
  "query_incidencias f (rows w) = Inr rs \<Longrightarrow> list_incidencias L base f w = responses L base rs"
  "query_incidencias f (rows w) = Inl e \<Longrightarrow> list_incidencias L base f w = Inl e"
  by (simp_all add: list_incidencias_def)

lemma list_incidencias_Inr:
  "list_incidencias L base f w = Inr vs \<Longrightarrow>
   \<exists>rs. query_incidencias f (rows w) = Inr rs \<and> responses L base rs = Inr vs"
  by (auto simp: list_incidencias_def split: sum.splits)

text \<open>
  Claim C7, amended. When the listing returns, it returns one view for each row the query
  selects, in order; the view's location is null when a stored coordinate is null or
  empty, and when both are present both parse as floats and the location holds the two
  parsed values. When a selected row has both coordinates present and one of them does
  not parse, the listing raises and returns no view. The listing raises as well when the
  query does, which it does for a non-zero filter that is not a signed 64-bit integer.
  When the query returns and, in every row it selects, the coordinates present together
  parse and the status is not null, the listing returns. The query selects every row when
  there is no filter or the filter is zero, and for another filter SQLite can take, the
  rows whose reporter is the filter's decimal text.
\<close>

theorem location_view:
  "(\<forall>vs. list_incidencias L base f w = Inr vs \<longrightarrow>
      (\<exists>rs. query_incidencias f (rows w) = Inr rs \<and> length vs = length rs \<and>
         (\<forall>k<length vs.
            (\<not> (str_present (ubicacion_lat (rs ! k)) \<and> str_present (ubicacion_lng (rs ! k))) \<longrightarrow>
               r_ubicacion (vs ! k) = None) \<and>
            (\<forall>a b. ubicacion_lat (rs ! k) = Some a \<and> a \<noteq> [] \<and>
                   ubicacion_lng (rs ! k) = Some b \<and> b \<noteq> [] \<longrightarrow>
               (\<exists>x y. py_float L a = Some x \<and> py_float L b = Some y \<and>
                  r_ubicacion (vs ! k) = Some [(''lat'', PFloat x), (''lng'', PFloat y)]))))) \<and>
   (\<forall>rs. query_incidencias f (rows w) = Inr rs \<and>
      (\<exists>r a b. r \<in> set rs \<and>
         ubicacion_lat r = Some a \<and> a \<noteq> [] \<and> ubicacion_lng r = Some b \<and> b \<noteq> [] \<and>
         (py_float L a = None \<or> py_float L b = None)) \<longrightarrow>
      (\<exists>e. list_incidencias L base f w = Inl e)) \<and>
   (\<forall>e. query_incidencias f (rows w) = Inl e \<longrightarrow> list_incidencias L base f w = Inl e) \<and>
   (\<forall>rs. query_incidencias f (rows w) = Inr rs \<and>
      (\<forall>r\<in>set rs.
         status r \<noteq> None \<and>
         (\<forall>a b. ubicacion_lat r = Some a \<and> a \<noteq> [] \<and> ubicacion_lng r = Some b \<and> b \<noteq> [] \<longrightarrow>
            py_float L a \<noteq> None \<and> py_float L b \<noteq> None)) \<longrightarrow>
      (\<exists>vs. list_incidencias L base f w = Inr vs)) \<and>
   (f = None \<or> f = Some 0 \<longrightarrow> query_incidencias f (rows w) = Inr (rows w)) \<and>
   (\<forall>n. f = Some n \<and> n \<noteq> 0 \<longrightarrow>
      query_incidencias f (rows w) =
        (if sqlite_int n
         then Inr (filter (\<lambda>r. id_usuario_emisor r = str_int n) (rows w))
         else Inl OverflowError))"
proof (intro conjI allI impI)
  fix vs
  assume l: "list_incidencias L base f w = Inr vs"
  from list_incidencias_Inr[OF l] obtain rs where q: "query_incidencias f (rows w) = Inr rs"
    and r: "responses L base rs = Inr vs" by blast
  from responses_Inr[OF r] have len: "length vs = length rs"
    and each: "\<forall>k<length rs. to_response L base (rs ! k) = Inr (vs ! k)" by simp_all
  have "(\<not> (str_present (ubicacion_lat (rs ! k)) \<and> str_present (ubicacion_lng (rs ! k))) \<longrightarrow>
               r_ubicacion (vs ! k) = None) \<and>
            (\<forall>a b. ubicacion_lat (rs ! k) = Some a \<and> a \<noteq> [] \<and>
                   ubicacion_lng (rs ! k) = Some b \<and> b \<noteq> [] \<longrightarrow>
               (\<exists>x y. py_float L a = Some x \<and> py_float L b = Some y \<and>
                  r_ubicacion (vs ! k) = Some [(''lat'', PFloat x), (''lng'', PFloat y)]))"
    if k: "k < length vs" for k
  proof (intro conjI allI impI)
    from each k len have t: "to_response L base (rs ! k) = Inr (vs ! k)" by simp
    {
      assume np: "\<not> (str_present (ubicacion_lat (rs ! k)) \<and> str_present (ubicacion_lng (rs ! k)))"
      from to_response_Inr[OF t] ubicacion_view_absent[OF np, of L]
      show "r_ubicacion (vs ! k) = None" by simp
    }
    {
      fix a b
      assume p: "ubicacion_lat (rs ! k) = Some a \<and> a \<noteq> [] \<and>
                 ubicacion_lng (rs ! k) = Some b \<and> b \<noteq> []"
      from to_response_Inr[OF t] p
      have "ubicacion_view L (Some a) (Some b) = Inr (r_ubicacion (vs ! k))" by simp
      with p ubicacion_view_present[of a b L]
      show "\<exists>x y. py_float L a = Some x \<and> py_float L b = Some y \<and>
               r_ubicacion (vs ! k) = Some [(''lat'', PFloat x), (''lng'', PFloat y)]"
        by (auto split: option.splits)
    }
  qed
  with q len show "\<exists>rs. query_incidencias f (rows w) = Inr rs \<and> length vs = length rs \<and>
         (\<forall>k<length vs.
            (\<not> (str_present (ubicacion_lat (rs ! k)) \<and> str_present (ubicacion_lng (rs ! k))) \<longrightarrow>
               r_ubicacion (vs ! k) = None) \<and>
            (\<forall>a b. ubicacion_lat (rs ! k) = Some a \<and> a \<noteq> [] \<and>
                   ubicacion_lng (rs ! k) = Some b \<and> b \<noteq> [] \<longrightarrow>
               (\<exists>x y. py_float L a = Some x \<and> py_float L b = Some y \<and>
                  r_ubicacion (vs ! k) = Some [(''lat'', PFloat x), (''lng'', PFloat y)])))"
    by (intro exI[of _ rs]) simp
next
  fix rs
  assume "query_incidencias f (rows w) = Inr rs \<and>
      (\<exists>r a b. r \<in> set rs \<and>
         ubicacion_lat r = Some a \<and> a \<noteq> [] \<and> ubicacion_lng r = Some b \<and> b \<noteq> [] \<and>
         (py_float L a = None \<or> py_float L b = None))"
  then obtain r a b where q: "query_incidencias f (rows w) = Inr rs" and r: "r \<in> set rs"
    and p: "ubicacion_lat r = Some a" "a \<noteq> []" "ubicacion_lng r = Some b" "b \<noteq> []"
    and n: "py_float L a = None \<or> py_float L b = None" by blast
  from n ubicacion_view_present[OF p(2) p(4), of L]
  obtain e where "ubicacion_view L (Some a) (Some b) = Inl e"
    by (auto split: option.splits)
  with p have "ubicacion_view L (ubicacion_lat r) (ubicacion_lng r) = Inl e" by simp
  from responses_Inl[OF r to_response_Inl[OF this]]
  show "\<exists>e. list_incidencias L base f w = Inl e"
    by (simp add: list_incidencias_query(1)[OF q])
next
  fix e
  assume "query_incidencias f (rows w) = Inl e"
  then show "list_incidencias L base f w = Inl e" by (rule list_incidencias_query(2))
next
  fix rs
  assume a: "query_incidencias f (rows w) = Inr rs \<and>
      (\<forall>r\<in>set rs.
         status r \<noteq> None \<and>
         (\<forall>a b. ubicacion_lat r = Some a \<and> a \<noteq> [] \<and> ubicacion_lng r = Some b \<and> b \<noteq> [] \<longrightarrow>
            py_float L a \<noteq> None \<and> py_float L b \<noteq> None))"
  then have q: "query_incidencias f (rows w) = Inr rs" by simp
  have "\<exists>v. to_response L base r = Inr v" if r: "r \<in> set rs" for r
  proof -
    from a r obtain st where st: "status r = Some st" by auto
    have "\<exists>u. ubicacion_view L (ubicacion_lat r) (ubicacion_lng r) = Inr u"
    proof (cases "str_present (ubicacion_lat r) \<and> str_present (ubicacion_lng r)")
      case False
      from ubicacion_view_absent[OF this] show ?thesis by blast
    next
      case True
      then obtain x y where xy: "ubicacion_lat r = Some x" "x \<noteq> []" "ubicacion_lng r = Some y" "y \<noteq> []"
        by (auto simp: str_present_def split: option.splits)
      with a r have "py_float L x \<noteq> None \<and> py_float L y \<noteq> None" by blast
      with ubicacion_view_present[OF xy(2) xy(4), of L] xy show ?thesis by auto
    qed
    then obtain u where "ubicacion_view L (ubicacion_lat r) (ubicacion_lng r) = Inr u" by blast
    from to_response_ok[OF this st] show ?thesis .
  qed
  from responses_ok[of rs L base, OF this]
  show "\<exists>vs. list_incidencias L base f w = Inr vs"
    by (simp add: list_incidencias_query(1)[OF q])
next
  assume "f = None \<or> f = Some 0"
  then show "query_incidencias f (rows w) = Inr (rows w)"
    by (auto simp: query_incidencias_def)
next
  fix n
  assume "f = Some n \<and> n \<noteq> 0"
  then show "query_incidencias f (rows w) =
        (if sqlite_int n
         then Inr (filter (\<lambda>r. id_usuario_emisor r = str_int n) (rows w))
         else Inl OverflowError)"
    by (simp add: query_incidencias_def)
qed

theorem location_view_witness:
  "list_incidencias lib_ex ''https://h/'' None world_ex_loc =
     Inr [\<lparr>r_id_incidencia = ''r1'', r_id_usuario_emisor = ''7'', r_id_catalogo = ''c1'',
           r_subcategoria = ''s1'', r_asunto = ''broken light'',
           r_descripcion = ''dark street'', r_imagen = None, r_video = None, r_audio = None,
           r_fecha_emision = ''2024-05-02'',
           r_ubicacion = Some [(''lat'', PFloat (194, 1)), (''lng'', PFloat (- 991, 1))],
           r_status = ''pending''\<rparr>] \<and>
   list_incidencias lib_ex ''https://h/'' None world_ex =
     Inr [\<lparr>r_id_incidencia = ''r1'', r_id_usuario_emisor = ''7'', r_id_catalogo = ''c1'',
           r_subcategoria = ''s1'', r_asunto = ''broken light'',
           r_descripcion = ''dark street'', r_imagen = None, r_video = None, r_audio = None,
           r_fecha_emision = ''2024-05-02'', r_ubicacion = None, r_status = ''pending''\<rparr>] \<and>
   list_incidencias lib_ex ''https://h/'' (Some 9223372036854775808) world_ex = Inl OverflowError \<and>
   list_incidencias lib_ex ''https://h/'' (Some 7) world_ex2 =
     Inr [\<lparr>r_id_incidencia = ''r1'', r_id_usuario_emisor = ''7'', r_id_catalogo = ''c1'',
           r_subcategoria = ''s1'', r_asunto = ''broken light'',
           r_descripcion = ''dark street'', r_imagen = None, r_video = None, r_audio = None,
           r_fecha_emision = ''2024-05-02'', r_ubicacion = None, r_status = ''pending''\<rparr>]"
proof -
  have q: "query_incidencias None (rows world_ex_loc) = Inr (rows world_ex_loc)"
    by (simp add: query_incidencias_def)
  have h: "\<forall>r\<in>set (rows world_ex_loc).
        status r \<noteq> None \<and>
        (\<forall>a b. ubicacion_lat r = Some a \<and> a \<noteq> [] \<and> ubicacion_lng r = Some b \<and> b \<noteq> [] \<longrightarrow>
           py_float lib_ex a \<noteq> None \<and> py_float lib_ex b \<noteq> None)"
    by (simp add: world_ex_loc_def world_ex_def inc_ex_def lib_ex_def)
  from location_view [of lib_ex "''https://h/''" None world_ex_loc] q h
  obtain vs where vs: "list_incidencias lib_ex ''https://h/'' None world_ex_loc = Inr vs"
    by blast
  have e1: "list_incidencias lib_ex ''https://h/'' None world_ex_loc =
     Inr [\<lparr>r_id_incidencia = ''r1'', r_id_usuario_emisor = ''7'', r_id_catalogo = ''c1'',
           r_subcategoria = ''s1'', r_asunto = ''broken light'',
           r_descripcion = ''dark street'', r_imagen = None, r_video = None, r_audio = None,
           r_fecha_emision = ''2024-05-02'',
           r_ubicacion = Some [(''lat'', PFloat (194, 1)), (''lng'', PFloat (- 991, 1))],
           r_status = ''pending''\<rparr>]"
    by (simp add: list_incidencias_def query_incidencias_def world_ex_loc_def world_ex_def
        inc_ex_def lib_ex_def to_response_def ubicacion_view_def media_url_def
        str_nat.simps)
  have e2: "list_incidencias lib_ex ''https://h/'' None world_ex =
     Inr [\<lparr>r_id_incidencia = ''r1'', r_id_usuario_emisor = ''7'', r_id_catalogo = ''c1'',
           r_subcategoria = ''s1'', r_asunto = ''broken light'',
           r_descripcion = ''dark street'', r_imagen = None, r_video = None, r_audio = None,
           r_fecha_emision = ''2024-05-02'', r_ubicacion = None, r_status = ''pending''\<rparr>]"
    by (simp add: list_incidencias_def query_incidencias_def world_ex_def
        inc_ex_def lib_ex_def to_response_def ubicacion_view_def media_url_def
        str_nat.simps)
  have e3: "list_incidencias lib_ex ''https://h/'' (Some 9223372036854775808) world_ex =
      Inl OverflowError"
    by (simp add: list_incidencias_def query_incidencias_def sqlite_int_def)
  have e4: "list_incidencias lib_ex ''https://h/'' (Some 7) world_ex2 =
     Inr [\<lparr>r_id_incidencia = ''r1'', r_id_usuario_emisor = ''7'', r_id_catalogo = ''c1'',
           r_subcategoria = ''s1'', r_asunto = ''broken light'',
           r_descripcion = ''dark street'', r_imagen = None, r_video = None, r_audio = None,
           r_fecha_emision = ''2024-05-02'', r_ubicacion = None, r_status = ''pending''\<rparr>]"
    by (simp add: list_incidencias_def query_incidencias_def sqlite_int_def world_ex2_def
        world_ex_def inc_ex0_def inc_ex_def lib_ex_def to_response_def ubicacion_view_def
        media_url_def str_int_def str_nat.simps)
  from vs e1 e2 e3 e4 show ?thesis by simp
qed

theorem location_view_counterexample:
  "fst (create_incidencia lib_ex draft_ex_abc world_ex) =
     Inr (''Incidencia creada correctamente'', ''3f2b8c1e-5d47-4a69-9b0c-7e1d2f3a4b5c'') \<and>
   ubicacion_lat (last (rows (snd (create_incidencia lib_ex draft_ex_abc world_ex)))) =
     Some ''abc'' \<and>
   ubicacion_lng (last (rows (snd (create_incidencia lib_ex draft_ex_abc world_ex)))) =
     Some ''19.4'' \<and>
   list_incidencias lib_ex ''https://h/'' None
       (snd (create_incidencia lib_ex draft_ex_abc world_ex)) =
     Inl (FloatValueError ''abc'')"
  by (simp add: draft_ex_abc_def draft_ex_def IncidenciaCreate_of_def fecha_emision_field_def
      lib_ex_def world_ex_def inc_ex_def create_incidencia_def save_media_def db_add_commit_def
      str_if_truthy_def ubicacion_get_def dict_get_def Let_def
      list_incidencias_def query_incidencias_def to_response_def ubicacion_view_def
      str_present_def media_url_def)

end
